theory Spec2Isabelle
  imports Main "HOL-Library.Char_ord"
begin

section \<open>Data model (interfaces.ts)\<close>

text \<open>
  A Slack message as the archive reads it. Every field of the Slack type is optional, so
  every field is an option. Only the fields the synchronizer and the renderer look at
  are kept; \<open>msg_text\<close> stands for the \<open>text\<close> field and is the payload that tells two
  copies of a message apart. \<open>reply_count\<close> is a count, hence a natural number.
\<close>

record message =
  ts :: "string option"
  user :: "string option"
  bot_id :: "string option"
  reply_count :: "nat option"
  thread_ts :: "string option"
  msg_text :: "string option"

text \<open>\<open>interface ArchiveMessage extends SlackMessage { replies?: Array<SlackMessage> }\<close>\<close>

record archive_message = message +
  replies :: "message list option"

text \<open>\<open>User\<close>: the profile record of a user or a bot.\<close>

record user_info =
  user_id :: string
  user_name :: "string option"
  real_name :: "string option"

text \<open>\<open>type Users = Record<string, User>\<close>\<close>

type_synonym users = "string \<rightharpoonup> user_info"

record channel =
  channel_id :: "string option"
  channel_name :: "string option"

section \<open>JavaScript values\<close>

text \<open>
  Truthiness of an optional string: \<open>undefined\<close> and the empty string are falsy.
  \<open>a || b\<close> is \<open>a\<close> when \<open>a\<close> is truthy and \<open>b\<close> otherwise.
\<close>

definition truthy :: "string option \<Rightarrow> bool" where
  "truthy v = (case v of None \<Rightarrow> False | Some s \<Rightarrow> s \<noteq> [])"

definition js_or :: "string option \<Rightarrow> string option \<Rightarrow> string option" where
  "js_or a b = (if truthy a then a else b)"

text \<open>Truthiness of an optional number: \<open>undefined\<close> and \<open>0\<close> are falsy.\<close>

definition truthy_num :: "nat option \<Rightarrow> bool" where
  "truthy_num v = (case v of None \<Rightarrow> False | Some n \<Rightarrow> n \<noteq> 0)"

text \<open>
  \<open>parseInt(s, 10)\<close>: leading white space is skipped, one sign is read, then the longest
  run of decimal digits; no digit at all gives \<open>NaN\<close>, which is \<open>None\<close> here. The result
  is an unbounded integer: the rounding of a JavaScript number beyond \<open>2^53\<close> and
  white space outside ASCII are not modelled.
\<close>

definition is_digit :: "char \<Rightarrow> bool" where
  "is_digit c = (CHR ''0'' \<le> c \<and> c \<le> CHR ''9'')"

definition digit_val :: "char \<Rightarrow> nat" where
  "digit_val c = of_char c - 48"

definition digits_val :: "string \<Rightarrow> nat" where
  "digits_val ds = foldl (\<lambda>a c. 10 * a + digit_val c) 0 ds"

definition StrWhiteSpaceChar :: "char \<Rightarrow> bool" where
  "StrWhiteSpaceChar c =
     (c \<in> set [CHR 0x09, CHR 0x0A, CHR 0x0B, CHR 0x0C, CHR 0x0D, CHR 0x20])"

definition parseInt :: "string \<Rightarrow> int option" where
  "parseInt s =
     (let S = dropWhile StrWhiteSpaceChar s;
          sign = (if S \<noteq> [] \<and> hd S = CHR ''-'' then - 1 else 1);
          S' = (if S \<noteq> [] \<and> (hd S = CHR ''+'' \<or> hd S = CHR ''-'') then tl S else S);
          Z = takeWhile is_digit S'
      in if Z = [] then None else Some (sign * int (digits_val Z)))"

section \<open>The remote service\<close>

text \<open>
  The Slack web client is an external collaborator, so it is a parameter of every
  operation: one function per endpoint the code calls. A call that the transport
  rejects throws in the source; here it is \<open>Inl TransportFailure\<close>.
  \<^item> \<open>history\<close>: \<open>paginate("conversations.history", {channel, oldest})\<close>, the pages in
    the order the iterator yields them; a page is the \<open>messages\<close> field of the response,
    \<open>None\<close> when the field is absent;
  \<^item> \<open>thread\<close>: \<open>conversations.replies({channel, ts, oldest})\<close>, the \<open>messages\<close> field;
  \<^item> \<open>info\<close>: \<open>users.info\<close> or \<open>bots.info\<close>, the \<open>user\<close> or \<open>bot\<close> field.
  Every operation also returns the list of the remote calls it issued, in order.
\<close>

datatype error = TransportFailure

datatype identifier_type = UserType | BotType

type_synonym page = "archive_message list option"

record remote =
  history :: "string \<Rightarrow> int option \<Rightarrow> (error + page) list"
  thread :: "string \<Rightarrow> string \<Rightarrow> string option \<Rightarrow> error + message list option"
  info :: "identifier_type \<Rightarrow> string \<Rightarrow> error + user_info option"

datatype call =
    HistoryCall string "int option"
  | RepliesCall string string "string option"
  | InfoCall identifier_type string

section \<open>download-messages.ts\<close>

subsection \<open>downloadUser\<close>

text \<open>
  The result is the returned record (\<open>None\<close> for \<open>null\<close>), the users cache after the
  call and the remote calls issued. The cache is written only after a lookup that
  produced a record.
\<close>

definition downloadUser ::
  "remote \<Rightarrow> 'a message_scheme \<Rightarrow> users \<Rightarrow> (error + user_info option) \<times> users \<times> call list"
where
  "downloadUser rem item us =
     (let identifier = js_or (user item) (bot_id item);
          identifierType = (if truthy (user item) then UserType else BotType)
      in if \<not> truthy identifier then (Inr None, us, [])
         else
           (let ident = the identifier in
            case us ident of
              Some u \<Rightarrow> (Inr (Some u), us, [])
            | None \<Rightarrow>
                (case info rem identifierType ident of
                   Inl e \<Rightarrow> (Inl e, us, [InfoCall identifierType ident])
                 | Inr None \<Rightarrow> (Inr None, us, [InfoCall identifierType ident])
                 | Inr (Some u) \<Rightarrow>
                     (Inr (Some u), us(ident \<mapsto> u), [InfoCall identifierType ident]))))"

text \<open>
  Resolving the same item \<open>n\<close> times in one run, the cache threaded through; the calls of
  all resolutions are collected. A transport failure ends the run.
\<close>

fun resolve_repeatedly ::
  "remote \<Rightarrow> 'a message_scheme \<Rightarrow> nat \<Rightarrow> users \<Rightarrow> users \<times> call list"
where
  "resolve_repeatedly rem item 0 us = (us, [])"
| "resolve_repeatedly rem item (Suc n) us =
     (case downloadUser rem item us of
        (Inl e, us', cs) \<Rightarrow> (us', cs)
      | (Inr r, us', cs) \<Rightarrow>
          (case resolve_repeatedly rem item n us' of (us'', cs') \<Rightarrow> (us'', cs @ cs')))"

subsection \<open>downloadMessages\<close>

text \<open>\<open>interface DownloadMessagesResult { messages: Array<ArchiveMessage>; new: number }\<close>\<close>

record download_result =
  messages :: "archive_message list"
  new :: nat

text \<open>
  The body of the \<open>for await\<close> loop over the pages: a page that \<open>isConversation\<close>
  rejects (no \<open>messages\<close> field) is skipped; otherwise its length is added to \<open>new\<close> and
  \<open>unshift(...page.messages)\<close> puts its messages, in their order, in front of the
  accumulator.
\<close>

definition merge_page :: "page \<Rightarrow> download_result \<Rightarrow> download_result" where
  "merge_page page result =
     (case page of
        None \<Rightarrow> result
      | Some ms \<Rightarrow> \<lparr> messages = ms @ messages result, new = new result + length ms \<rparr>)"

fun merge_pages :: "(error + page) list \<Rightarrow> download_result \<Rightarrow> error + download_result" where
  "merge_pages [] result = Inr result"
| "merge_pages (Inl e # ps) result = Inl e"
| "merge_pages (Inr page # ps) result = merge_pages ps (merge_page page result)"

text \<open>
  \<open>getMessages\<close> (data-load.ts) reads the persisted collection of a channel; it is a
  parameter. The cursor \<open>oldest\<close> is computed from the first stored message.
\<close>

definition or_default :: "string option \<Rightarrow> string \<Rightarrow> string" where
  "or_default v d = (if truthy v then the v else d)"

definition fetch_cursor :: "archive_message list \<Rightarrow> int option" where
  "fetch_cursor stored =
     (case stored of [] \<Rightarrow> Some 0 | m # rest \<Rightarrow> parseInt (or_default (ts m) ''0''))"

definition downloadMessages ::
  "remote \<Rightarrow> (string \<Rightarrow> archive_message list) \<Rightarrow> channel
     \<Rightarrow> (error + download_result) \<times> call list"
where
  "downloadMessages rem getMessages ch =
     (if \<not> truthy (channel_id ch) then (Inr \<lparr> messages = [], new = 0 \<rparr>, [])
      else
        (let cid = the (channel_id ch);
             stored = getMessages cid;
             oldest = fetch_cursor stored
         in (merge_pages (history rem cid oldest) \<lparr> messages = stored, new = 0 \<rparr>,
             [HistoryCall cid oldest])))"

text \<open>
  Two sync runs in a row against the same remote: the second run reads the collection
  the first one produced.
\<close>

definition downloadMessages_twice ::
  "remote \<Rightarrow> (string \<Rightarrow> archive_message list) \<Rightarrow> channel
     \<Rightarrow> (error + download_result) \<times> (error + download_result)"
where
  "downloadMessages_twice rem getMessages ch =
     (case fst (downloadMessages rem getMessages ch) of
        Inl e \<Rightarrow> (Inl e, Inl e)
      | Inr r1 \<Rightarrow>
          (Inr r1, fst (downloadMessages rem (\<lambda>cid. messages r1) ch)))"

subsection \<open>downloadReplies\<close>

definition downloadReplies ::
  "remote \<Rightarrow> channel \<Rightarrow> archive_message \<Rightarrow> (error + message list) \<times> call list"
where
  "downloadReplies rem ch message =
     (if \<not> truthy (channel_id ch) \<or> \<not> truthy (ts message) then (Inr [], [])
      else if \<not> truthy_num (reply_count message) then (Inr [], [])
      else if replies message \<noteq> None \<and>
              the (reply_count message) \<le> length (the (replies message))
           then (Inr (the (replies message)), [])
      else
        (let stored = (case replies message of None \<Rightarrow> [] | Some rs \<Rightarrow> rs);
             oldest = (if length stored > 0 then ts (last stored) else Some ''0'');
             cid = the (channel_id ch);
             parent = the (ts message)
         in (case thread rem cid parent oldest of
               Inl e \<Rightarrow> Inl e
             | Inr result \<Rightarrow> Inr (drop 1 (case result of None \<Rightarrow> [] | Some ms \<Rightarrow> ms)),
             [RepliesCall cid parent oldest])))"

subsection \<open>downloadExtras\<close>

text \<open>
  Modelled from the spec: \<open>isThread\<close> (threads.ts is not among the sources). Section 3: a
  message with \<open>reply_count > 0\<close> whose own timestamp equals its thread-anchor timestamp
  is a thread parent.
\<close>

definition isThread :: "'a message_scheme \<Rightarrow> bool" where
  "isThread m = (truthy_num (reply_count m) \<and> thread_ts m = ts m)"

text \<open>
  The body of the loop over the messages: the replies of a thread are replaced by what
  \<open>downloadReplies\<close> returns, then the author is resolved when the cache has no entry.
\<close>

definition downloadExtras_body ::
  "remote \<Rightarrow> channel \<Rightarrow> archive_message \<Rightarrow> users
     \<Rightarrow> (error + archive_message \<times> users) \<times> call list"
where
  "downloadExtras_body rem ch message us =
     (case (if isThread message
            then (case downloadReplies rem ch message of
                    (Inl e, cs) \<Rightarrow> (Inl e, cs)
                  | (Inr rs, cs) \<Rightarrow> (Inr (message \<lparr> replies := Some rs \<rparr>), cs))
            else (Inr message, [])) of
        (Inl e, cs) \<Rightarrow> (Inl e, cs)
      | (Inr message', cs) \<Rightarrow>
          (let identifier = js_or (user message') (bot_id message')
           in if truthy identifier \<and> us (the identifier) = None
              then (case downloadUser rem message' us of
                      (Inl e, us', cs') \<Rightarrow> (Inl e, cs @ cs')
                    | (Inr usr, us', cs') \<Rightarrow>
                        (Inr (message',
                              (case usr of None \<Rightarrow> us'
                               | Some u \<Rightarrow> us'(the identifier \<mapsto> u))),
                         cs @ cs'))
              else (Inr (message', us), cs)))"

fun downloadExtras ::
  "remote \<Rightarrow> channel \<Rightarrow> archive_message list \<Rightarrow> users
     \<Rightarrow> (error + archive_message list \<times> users) \<times> call list"
where
  "downloadExtras rem ch [] us = (Inr ([], us), [])"
| "downloadExtras rem ch (m # ms) us =
     (case downloadExtras_body rem ch m us of
        (Inl e, cs) \<Rightarrow> (Inl e, cs)
      | (Inr (m', us'), cs) \<Rightarrow>
          (case downloadExtras rem ch ms us' of
             (Inl e, cs') \<Rightarrow> (Inl e, cs @ cs')
           | (Inr (ms', us''), cs') \<Rightarrow> (Inr (m' # ms', us''), cs @ cs')))"

section \<open>create-html.tsx\<close>

definition MESSAGE_CHUNK :: nat where
  "MESSAGE_CHUNK = 1000"

text \<open>
  \<open>chunk(array, size)\<close> of lodash: slices of length \<open>n\<close> (the \<open>size\<close>) from the front, the last one
  with what remains; no slice for an empty array or a size below one.
\<close>

function chunk :: "'a list \<Rightarrow> nat \<Rightarrow> 'a list list" where
  "chunk xs n =
     (if xs = [] \<or> n < 1 then [] else take n xs # chunk (drop n xs) n)"
  by pat_completeness auto
termination
  by (relation "measure (\<lambda>(xs, n). length xs)") auto

declare chunk.simps [simp del]

text \<open>A number and an optional string inside a template literal.\<close>

fun string_of_nat :: "nat \<Rightarrow> string" where
  "string_of_nat n =
     (if n < 10 then [char_of (48 + n)]
      else string_of_nat (n div 10) @ [char_of (48 + n mod 10)])"

declare string_of_nat.simps [simp del]

definition template :: "string option \<Rightarrow> string" where
  "template v = (case v of None \<Rightarrow> ''undefined'' | Some s \<Rightarrow> s)"

subsection \<open>Pagination\<close>

text \<open>
  The markup a component returns is kept as data: a link of the jump bar with its
  \<open>className\<close>, \<open>key\<close>, \<open>href\<close> and the index it shows; the pagination block with the
  targets of the "Newer Messages" and "Older Messages" links, the separator and the
  jump bar. \<open>None\<close> is a component that renders nothing.
\<close>

record jump_link =
  className :: string
  key :: nat
  href :: string
  label :: nat

record pagination =
  newer :: "string option"
  sep :: "string option"
  older :: "string option"
  jump :: "jump_link list"

definition page_href :: "string option \<Rightarrow> nat \<Rightarrow> string" where
  "page_href channelId i = template channelId @ ''-'' @ string_of_nat i @ ''.html''"

definition Pagination :: "string option \<Rightarrow> nat \<Rightarrow> nat \<Rightarrow> pagination option" where
  "Pagination channelId index total' =
     (if total' = 1 then None
      else
        (let older = (if index + 1 < total' then Some (page_href channelId (index + 1))
                      else None);
             newer = (if index > 0 then Some (page_href channelId (index - 1)) else None);
             sep = (if older \<noteq> None \<and> newer \<noteq> None then Some '' | '' else None);
             jump = map (\<lambda>ji. \<lparr> className = (if ji = index then ''current'' else []),
                                key = ji, href = page_href channelId ji, label = ji \<rparr>)
                        [0..<total']
         in Some \<lparr> newer = newer, sep = sep, older = older, jump = jump \<rparr>))"

subsection \<open>MessagesPage\<close>

datatype element =
    ParentMessage archive_message "string option"
  | Span string string

record messages_page =
  page_index :: nat
  page_total :: nat
  header_pagination :: "pagination option"
  messages_list :: "element list"

definition MessagesPage ::
  "archive_message list \<Rightarrow> channel \<Rightarrow> nat \<Rightarrow> nat \<Rightarrow> messages_page"
where
  "MessagesPage msgs ch index total' =
     (let shown = rev (map (\<lambda>m. ParentMessage m (channel_id ch)) msgs);
          shown' = (if length shown = 0
                    then shown @ [Span ''empty'' ''No messages were ever sent!'']
                    else shown)
      in \<lparr> page_index = index, page_total = total',
           header_pagination = Pagination (channel_id ch) index total',
           messages_list = shown' \<rparr>)"

subsection \<open>renderMessagesPage and createHtmlForChannel\<close>

text \<open>
  Rendering acts on the world twice: \<open>recordPage(channel.id, ts)\<close> of search.ts, and
  the write of the page to \<open>getHTMLFilePath(channel.id, index)\<close>. Both are kept as
  effects, in the order they happen.
\<close>

datatype effect =
    RecordPage "string option" "string option"
  | WritePage "string option" nat messages_page

definition renderMessagesPage ::
  "channel \<Rightarrow> archive_message list \<Rightarrow> nat \<Rightarrow> nat \<Rightarrow> effect list"
where
  "renderMessagesPage ch msgs index total' =
     (let page = MessagesPage msgs ch index total'
      in (if length msgs > 0 then [RecordPage (channel_id ch) (ts (last msgs))] else [])
         @ [WritePage (channel_id ch) index page])"

text \<open>The messages are what \<open>getMessages(channel.id, true)\<close> read.\<close>

definition createHtmlForChannel :: "channel \<Rightarrow> archive_message list \<Rightarrow> effect list" where
  "createHtmlForChannel ch msgs =
     (let chunks = chunk msgs MESSAGE_CHUNK
      in (if length chunks = 0 then renderMessagesPage ch [] 0 (length chunks) else [])
         @ concat (map (\<lambda>(chunkI, c). renderMessagesPage ch c chunkI (length chunks))
                       (enumerate 0 chunks)))"

text \<open>The pages written and the boundaries recorded, in order.\<close>

fun written_pages :: "effect list \<Rightarrow> messages_page list" where
  "written_pages [] = []"
| "written_pages (WritePage cid i p # es) = p # written_pages es"
| "written_pages (RecordPage cid t # es) = written_pages es"

fun recorded_boundaries :: "effect list \<Rightarrow> (string option \<times> string option) list" where
  "recorded_boundaries [] = []"
| "recorded_boundaries (RecordPage cid t # es) = (cid, t) # recorded_boundaries es"
| "recorded_boundaries (WritePage cid i p # es) = recorded_boundaries es"

text \<open>The jump bar of a page: the index each link shows and its class, in order.\<close>

definition jump_bar :: "messages_page \<Rightarrow> (nat \<times> string) list option" where
  "jump_bar p =
     map_option (\<lambda>pg. map (\<lambda>l. (label l, className l)) (jump pg)) (header_pagination p)"

section \<open>Reference notions for the claims\<close>

text \<open>
  What one sync run delivered: the messages of the pages that carry a \<open>messages\<close> field,
  a later page in front of an earlier one, as repeated \<open>unshift\<close> leaves them.
\<close>

definition delivered :: "(error + page) list \<Rightarrow> archive_message list" where
  "delivered ps =
     concat (rev (map (\<lambda>p. case p of Inr (Some ms) \<Rightarrow> ms | _ \<Rightarrow> []) ps))"

text \<open>
  A Slack timestamp \<open>seconds.microseconds\<close> read in microseconds, to compare
  timestamps by age.
\<close>

definition ts_micros :: "string \<Rightarrow> int" where
  "ts_micros s =
     (let secs = takeWhile is_digit s;
          frac = takeWhile is_digit (drop 1 (dropWhile is_digit s))
      in int (digits_val secs) * 1000000 + int (digits_val (take 6 (frac @ ''000000''))))"

text \<open>
  A remote for the concrete runs below. The history endpoint is not code of the
  repository; sections 4.1 and 6 of the spec describe it: \<open>fetchHistory(channelId,
  sinceTimestamp)\<close> yields the messages newer than the cursor. \<open>remote_holding held\<close>
  is a workspace whose channel holds the messages \<open>held\<close> and answers with one page.
\<close>

definition newer_than :: "int option \<Rightarrow> 'a message_scheme \<Rightarrow> bool" where
  "newer_than oldest m =
     (case oldest of
        None \<Rightarrow> True
      | Some c \<Rightarrow> c * 1000000 < ts_micros (or_default (ts m) ''0''))"

definition remote_holding :: "archive_message list \<Rightarrow> remote" where
  "remote_holding held =
     \<lparr> history = (\<lambda>cid oldest. [Inr (Some (filter (newer_than oldest) held))]),
       thread = (\<lambda>cid t oldest. Inr None),
       info = (\<lambda>k i. Inr None) \<rparr>"

text \<open>
  The cursor as section 4.1 of the spec words it: the timestamp of the oldest stored
  message (the one of least timestamp), read as a number; the beginning of history for
  an empty collection.
\<close>

definition oldest_stored :: "archive_message list \<Rightarrow> archive_message" where
  "oldest_stored stored =
     fold (\<lambda>m best. if ts_micros (or_default (ts m) ''0'')
                        < ts_micros (or_default (ts best) ''0'') then m else best)
          (tl stored) (hd stored)"

definition spec_cursor :: "archive_message list \<Rightarrow> int option" where
  "spec_cursor stored =
     (if stored = [] then Some 0
      else parseInt (or_default (ts (oldest_stored stored)) ''0''))"

text \<open>Idempotence of the second of two runs, as section 8 of the spec words it.\<close>

definition second_run_idempotent ::
  "(error + download_result) \<times> (error + download_result) \<Rightarrow> bool"
where
  "second_run_idempotent runs =
     (case runs of
        (Inr r1, Inr r2) \<Rightarrow> new r2 = 0 \<and> messages r2 = messages r1
      | _ \<Rightarrow> False)"

text \<open>A timestamp is newer than another one.\<close>

definition newer_first :: "string option \<Rightarrow> string option \<Rightarrow> bool" where
  "newer_first a b = (ts_micros (or_default b ''0'') < ts_micros (or_default a ''0''))"

section \<open>Concrete inputs\<close>

definition no_remote :: remote where
  "no_remote = \<lparr> history = (\<lambda>cid oldest. []),
                 thread = (\<lambda>cid t oldest. Inr None),
                 info = (\<lambda>k i. Inr None) \<rparr>"

definition anonymous_message :: message where
  "anonymous_message = \<lparr> ts = Some ''100.000000'', user = None, bot_id = None,
     reply_count = None, thread_ts = None, msg_text = Some ''hello'' \<rparr>"

definition message_of_U1 :: message where
  "message_of_U1 = \<lparr> ts = Some ''100.000000'', user = Some ''U1'', bot_id = None,
     reply_count = None, thread_ts = None, msg_text = Some ''hello'' \<rparr>"

definition user_U1 :: user_info where
  "user_U1 = \<lparr> user_id = ''U1'', user_name = Some ''ada'', real_name = None \<rparr>"

definition remote_with_U1 :: remote where
  "remote_with_U1 = no_remote \<lparr> info := (\<lambda>k i. if k = UserType \<and> i = ''U1''
                                               then Inr (Some user_U1) else Inr None) \<rparr>"

definition chan_C1 :: channel where
  "chan_C1 = \<lparr> channel_id = Some ''C1'', channel_name = Some ''general'' \<rparr>"

definition chan_without_id :: channel where
  "chan_without_id = \<lparr> channel_id = None, channel_name = Some ''general'' \<rparr>"

definition msg_a :: archive_message where
  "msg_a = \<lparr> ts = Some ''1700000000.000100'', user = Some ''U1'', bot_id = None,
     reply_count = None, thread_ts = None, msg_text = Some ''first'', replies = None \<rparr>"

definition msg_200 :: archive_message where
  "msg_200 = \<lparr> ts = Some ''200.000000'', user = Some ''U1'', bot_id = None,
     reply_count = None, thread_ts = None, msg_text = Some ''newer'', replies = None \<rparr>"

definition msg_100 :: archive_message where
  "msg_100 = \<lparr> ts = Some ''100.000000'', user = Some ''U1'', bot_id = None,
     reply_count = None, thread_ts = None, msg_text = Some ''older'', replies = None \<rparr>"

definition empty_store :: "string \<Rightarrow> archive_message list" where
  "empty_store cid = []"

definition store_a :: "string \<Rightarrow> archive_message list" where
  "store_a cid = [msg_a]"

definition store_200_100 :: "string \<Rightarrow> archive_message list" where
  "store_200_100 cid = [msg_200, msg_100]"

definition parent_message :: message where
  "parent_message = \<lparr> ts = Some ''100.000000'', user = Some ''U1'', bot_id = None,
     reply_count = Some 2, thread_ts = Some ''100.000000'', msg_text = Some ''question'' \<rparr>"

definition reply_1 :: message where
  "reply_1 = \<lparr> ts = Some ''101.000000'', user = Some ''U1'', bot_id = None,
     reply_count = None, thread_ts = Some ''100.000000'', msg_text = Some ''answer one'' \<rparr>"

definition reply_2 :: message where
  "reply_2 = \<lparr> ts = Some ''102.000000'', user = Some ''U1'', bot_id = None,
     reply_count = None, thread_ts = Some ''100.000000'', msg_text = Some ''answer two'' \<rparr>"

text \<open>A thread parent that says one reply and holds that reply.\<close>

definition complete_thread :: archive_message where
  "complete_thread = \<lparr> ts = Some ''100.000000'', user = Some ''U1'', bot_id = None,
     reply_count = Some 1, thread_ts = Some ''100.000000'', msg_text = Some ''question'',
     replies = Some [reply_1] \<rparr>"

text \<open>A thread parent that says two replies and holds the first of them.\<close>

definition partial_thread :: archive_message where
  "partial_thread = \<lparr> ts = Some ''100.000000'', user = Some ''U1'', bot_id = None,
     reply_count = Some 2, thread_ts = Some ''100.000000'', msg_text = Some ''question'',
     replies = Some [reply_1] \<rparr>"

text \<open>
  A remote whose thread under \<open>100.000000\<close> has the replies \<open>reply_1\<close> and \<open>reply_2\<close>:
  asked from the cursor \<open>101.000000\<close> it answers with the parent and the one newer
  reply, asked from anywhere else with the parent and both.
\<close>

definition remote_thread :: remote where
  "remote_thread =
     \<lparr> history = (\<lambda>cid oldest. []),
       thread = (\<lambda>cid t oldest. if oldest = Some ''101.000000''
                                 then Inr (Some [parent_message, reply_2])
                                 else Inr (Some [parent_message, reply_1, reply_2])),
       info = (\<lambda>k i. Inr None) \<rparr>"

section \<open>Helper lemmas\<close>

lemma downloadUser_cached:
  "truthy (js_or (user item) (bot_id item)) \<Longrightarrow>
   us (the (js_or (user item) (bot_id item))) = Some u \<Longrightarrow>
   downloadUser rem item us = (Inr (Some u), us, [])"
  by (simp add: downloadUser_def Let_def)

lemma resolve_repeatedly_cached:
  "truthy (js_or (user item) (bot_id item)) \<Longrightarrow>
   us (the (js_or (user item) (bot_id item))) = Some u \<Longrightarrow>
   resolve_repeatedly rem item n us = (us, [])"
  by (induction n) (simp_all add: downloadUser_cached)

lemma downloadUser_unresolved:
  "truthy (js_or (user item) (bot_id item)) \<Longrightarrow>
   us (the (js_or (user item) (bot_id item))) = None \<Longrightarrow>
   info rem (if truthy (user item) then UserType else BotType)
     (the (js_or (user item) (bot_id item))) = Inr None \<Longrightarrow>
   downloadUser rem item us =
     (Inr None, us,
      [InfoCall (if truthy (user item) then UserType else BotType)
         (the (js_or (user item) (bot_id item)))])"
  by (simp add: downloadUser_def Let_def)

lemma resolve_repeatedly_unresolved:
  "truthy (js_or (user item) (bot_id item)) \<Longrightarrow>
   us (the (js_or (user item) (bot_id item))) = None \<Longrightarrow>
   info rem (if truthy (user item) then UserType else BotType)
     (the (js_or (user item) (bot_id item))) = Inr None \<Longrightarrow>
   resolve_repeatedly rem item n us =
     (us, replicate n (InfoCall (if truthy (user item) then UserType else BotType)
                         (the (js_or (user item) (bot_id item)))))"
  by (induction n) (simp_all add: downloadUser_unresolved)

lemma delivered_Nil: "delivered [] = []"
  by (simp add: delivered_def)

lemma delivered_Cons_page:
  "delivered (Inr page # ps) = delivered ps @ (case page of None \<Rightarrow> [] | Some ms \<Rightarrow> ms)"
  by (simp add: delivered_def split: option.splits)

lemma merge_pages_delivered:
  "merge_pages ps r0 = Inr r \<Longrightarrow>
   messages r = delivered ps @ messages r0 \<and> new r = new r0 + length (delivered ps)"
proof (induction ps r0 rule: merge_pages.induct)
  case (1 result)
  then show ?case by (auto simp: delivered_Nil)
next
  case (2 e ps result)
  then show ?case by simp
next
  case (3 page ps result)
  then show ?case
    by (cases page) (auto simp: delivered_Cons_page merge_page_def)
qed

lemma downloadMessages_result:
  assumes "truthy (channel_id ch)"
    and "fst (downloadMessages rem getMessages ch) = Inr r"
  shows "messages r =
           delivered (history rem (the (channel_id ch))
                        (fetch_cursor (getMessages (the (channel_id ch)))))
           @ getMessages (the (channel_id ch))"
    and "new r =
           length (delivered (history rem (the (channel_id ch))
                        (fetch_cursor (getMessages (the (channel_id ch))))))"
  using assms merge_pages_delivered
    [of "history rem (the (channel_id ch)) (fetch_cursor (getMessages (the (channel_id ch))))"
        "\<lparr> messages = getMessages (the (channel_id ch)), new = 0 \<rparr>" r]
  by (simp_all add: downloadMessages_def Let_def)

lemma is_digit_hd_not_space: "is_digit c \<Longrightarrow> \<not> StrWhiteSpaceChar c"
  by (auto simp: is_digit_def StrWhiteSpaceChar_def)

lemma is_digit_not_sign: "is_digit c \<Longrightarrow> c \<noteq> CHR ''-'' \<and> c \<noteq> CHR ''+''"
  by (auto simp: is_digit_def)

lemma not_digit_dot: "\<not> is_digit CHR ''.''"
  by (simp add: is_digit_def)

lemma parseInt_seconds:
  assumes "secs \<noteq> []" and "list_all is_digit secs"
  shows "parseInt (secs @ CHR ''.'' # frac) = Some (int (digits_val secs))"
proof -
  obtain c cs where secs: "secs = c # cs" using assms(1) by (cases secs) auto
  have c: "is_digit c" using assms(2) secs by simp
  have tw: "takeWhile is_digit (secs @ CHR ''.'' # frac) = secs"
    using assms(2) by (simp add: takeWhile_append2 list_all_iff not_digit_dot)
  have dw: "dropWhile StrWhiteSpaceChar (secs @ CHR ''.'' # frac) = secs @ CHR ''.'' # frac"
    using c secs by (simp add: is_digit_hd_not_space)
  show ?thesis
    unfolding parseInt_def dw Let_def
    using is_digit_not_sign [OF c] tw assms(1) by (simp add: secs)
qed



lemma parseInt_a: "parseInt ''1700000000.000100'' = Some 1700000000"
  by (simp add: parseInt_def is_digit_def digits_val_def digit_val_def StrWhiteSpaceChar_def)

lemma ts_micros_a: "ts_micros ''1700000000.000100'' = 1700000000000100"
  by (simp add: ts_micros_def is_digit_def digits_val_def digit_val_def)



lemma parseInt_200: "parseInt ''200.000000'' = Some 200"
  by (simp add: parseInt_def is_digit_def digits_val_def digit_val_def StrWhiteSpaceChar_def)

lemma parseInt_100: "parseInt ''100.000000'' = Some 100"
  by (simp add: parseInt_def is_digit_def digits_val_def digit_val_def StrWhiteSpaceChar_def)

lemma ts_micros_200: "ts_micros ''200.000000'' = 200000000"
  by (simp add: ts_micros_def is_digit_def digits_val_def digit_val_def)

lemma ts_micros_100: "ts_micros ''100.000000'' = 100000000"
  by (simp add: ts_micros_def is_digit_def digits_val_def digit_val_def)

lemma run_on_store_a:
  "fst (downloadMessages (remote_holding [msg_a]) store_a chan_C1) =
     Inr \<lparr> messages = [msg_a, msg_a], new = 1 \<rparr>"
  by (simp add: downloadMessages_def remote_holding_def store_a_def chan_C1_def truthy_def
      fetch_cursor_def or_default_def msg_a_def newer_than_def merge_page_def
      parseInt_a ts_micros_a)

lemma run_on_empty_store:
  "fst (downloadMessages (remote_holding [msg_a]) empty_store chan_C1) =
     Inr \<lparr> messages = [msg_a], new = 1 \<rparr>"
  by (simp add: downloadMessages_def remote_holding_def empty_store_def chan_C1_def truthy_def
      fetch_cursor_def or_default_def msg_a_def newer_than_def merge_page_def ts_micros_a)

lemma run_on_first_result:
  "fst (downloadMessages (remote_holding [msg_a]) (\<lambda>cid. [msg_a]) chan_C1) =
     Inr \<lparr> messages = [msg_a, msg_a], new = 1 \<rparr>"
  using run_on_store_a by (simp add: store_a_def [abs_def])

lemma twice_on_empty_store:
  "downloadMessages_twice (remote_holding [msg_a]) empty_store chan_C1 =
     (Inr \<lparr> messages = [msg_a], new = 1 \<rparr>, Inr \<lparr> messages = [msg_a, msg_a], new = 1 \<rparr>)"
  by (simp add: downloadMessages_twice_def run_on_empty_store run_on_first_result)

lemma chunk_Nil: "chunk [] n = []"
  by (simp add: chunk.simps)

lemma chunk_step: "xs \<noteq> [] \<Longrightarrow> 0 < n \<Longrightarrow> chunk xs n = take n xs # chunk (drop n xs) n"
  by (subst chunk.simps) simp

lemma chunk_eq_Nil: "0 < n \<Longrightarrow> chunk xs n = [] \<longleftrightarrow> xs = []"
  by (subst chunk.simps) simp

lemma concat_chunk: "0 < n \<Longrightarrow> concat (chunk xs n) = xs"
proof (induction xs n rule: chunk.induct)
  case (1 xs n)
  show ?case
  proof (cases "xs = []")
    case True
    then show ?thesis by (simp add: chunk_Nil)
  next
    case False
    with 1 show ?thesis by (simp add: chunk_step)
  qed
qed

lemma chunk_member:
  "0 < n \<Longrightarrow> c \<in> set (chunk xs n) \<Longrightarrow> c \<noteq> [] \<and> length c \<le> n \<and> set c \<subseteq> set xs"
proof (induction xs n rule: chunk.induct)
  case (1 xs n)
  show ?case
  proof (cases "xs = []")
    case True
    with 1 show ?thesis by (simp add: chunk_Nil)
  next
    case False
    with 1(2,3) have "c = take n xs \<or> c \<in> set (chunk (drop n xs) n)"
      by (simp add: chunk_step)
    then show ?thesis
    proof
      assume "c = take n xs"
      with False 1(2) show ?thesis by (auto dest: in_set_takeD)
    next
      assume "c \<in> set (chunk (drop n xs) n)"
      with 1(1) [of] False 1(2) have "c \<noteq> [] \<and> length c \<le> n \<and> set c \<subseteq> set (drop n xs)"
        by simp
      then show ?thesis by (auto dest: in_set_dropD)
    qed
  qed
qed

lemma chunk_2500:
  assumes "length xs = 2500"
  shows "chunk xs 1000 = [take 1000 xs, take 1000 (drop 1000 xs), drop 2000 xs]"
proof -
  have a: "xs \<noteq> []" using assms by auto
  have b: "drop 1000 xs \<noteq> []" using assms by auto
  have c: "drop 2000 xs \<noteq> []" using assms by auto
  have "chunk xs 1000 = take 1000 xs # chunk (drop 1000 xs) 1000"
    using a by (simp add: chunk_step)
  also have "chunk (drop 1000 xs) 1000 = take 1000 (drop 1000 xs) # chunk (drop 2000 xs) 1000"
    using b by (simp add: chunk_step)
  also have "chunk (drop 2000 xs) 1000 = [drop 2000 xs]"
    using c assms by (simp add: chunk_step chunk_Nil)
  finally show ?thesis .
qed

lemma sorted_wrt_chunk_last:
  "0 < n \<Longrightarrow> sorted_wrt P xs \<Longrightarrow> sorted_wrt P (map last (chunk xs n))"
proof (induction xs n rule: chunk.induct)
  case (1 xs n)
  show ?case
  proof (cases "xs = []")
    case True
    then show ?thesis by (simp add: chunk_Nil)
  next
    case False
    have split: "sorted_wrt P (take n xs @ drop n xs)" using 1(3) by simp
    then have cross: "\<forall>x\<in>set (take n xs). \<forall>y\<in>set (drop n xs). P x y"
      and rest: "sorted_wrt P (drop n xs)"
      unfolding sorted_wrt_append by blast+
    have ih: "sorted_wrt P (map last (chunk (drop n xs) n))"
      using 1(1) False 1(2) rest by simp
    have hd_in: "last (take n xs) \<in> set (take n xs)"
      using False 1(2) by (intro last_in_set) auto
    have "P (last (take n xs)) (last c)" if "c \<in> set (chunk (drop n xs) n)" for c
    proof -
      from chunk_member [OF 1(2) that] have "last c \<in> set (drop n xs)" by auto
      with cross hd_in show ?thesis by blast
    qed
    with ih False 1(2) show ?thesis by (simp add: chunk_step)
  qed
qed

lemma written_pages_append: "written_pages (es @ fs) = written_pages es @ written_pages fs"
  by (induction es rule: written_pages.induct) simp_all

lemma recorded_boundaries_append:
  "recorded_boundaries (es @ fs) = recorded_boundaries es @ recorded_boundaries fs"
  by (induction es rule: recorded_boundaries.induct) simp_all

lemma renderMessagesPage_nonempty:
  "c \<noteq> [] \<Longrightarrow> renderMessagesPage ch c i t =
     [RecordPage (channel_id ch) (ts (last c)), WritePage (channel_id ch) i (MessagesPage c ch i t)]"
  by (simp add: renderMessagesPage_def)

lemma renderMessagesPage_empty:
  "renderMessagesPage ch [] i t = [WritePage (channel_id ch) i (MessagesPage [] ch i t)]"
  by (simp add: renderMessagesPage_def)

lemma render_chunks:
  "\<forall>c\<in>set cs. c \<noteq> [] \<Longrightarrow>
   concat (map (\<lambda>(i, c). renderMessagesPage ch c i t) (enumerate k cs)) =
   concat (map (\<lambda>(i, c). [RecordPage (channel_id ch) (ts (last c)),
                            WritePage (channel_id ch) i (MessagesPage c ch i t)])
               (enumerate k cs))"
  by (induction cs arbitrary: k) (simp_all add: renderMessagesPage_nonempty)

lemma written_render_chunks:
  "written_pages (concat (map (\<lambda>(i, c). [RecordPage cid (ts (last c)),
                            WritePage cid i (MessagesPage c ch i t)]) (enumerate k cs))) =
   map (\<lambda>(i, c). MessagesPage c ch i t) (enumerate k cs)"
  by (induction cs arbitrary: k) simp_all

lemma recorded_render_chunks:
  "recorded_boundaries (concat (map (\<lambda>(i, c). [RecordPage cid (ts (last c)),
                            WritePage cid i (MessagesPage c ch i t)]) (enumerate k cs))) =
   map (\<lambda>c. (cid, ts (last c))) cs"
  by (induction cs arbitrary: k) simp_all

lemma createHtmlForChannel_nonempty:
  assumes "msgs \<noteq> []"
  shows "createHtmlForChannel ch msgs =
     concat (map (\<lambda>(i, c). [RecordPage (channel_id ch) (ts (last c)),
                              WritePage (channel_id ch) i
                                (MessagesPage c ch i (length (chunk msgs MESSAGE_CHUNK)))])
                 (enumerate 0 (chunk msgs MESSAGE_CHUNK)))"
proof -
  have pos: "0 < MESSAGE_CHUNK" by (simp add: MESSAGE_CHUNK_def)
  have ne: "chunk msgs MESSAGE_CHUNK \<noteq> []"
    using assms chunk_eq_Nil [OF pos] by blast
  have all: "\<forall>c\<in>set (chunk msgs MESSAGE_CHUNK). c \<noteq> []"
    using chunk_member [OF pos] by blast
  show ?thesis
    using ne render_chunks [OF all] by (simp add: createHtmlForChannel_def Let_def)
qed

lemma createHtmlForChannel_Nil:
  "createHtmlForChannel ch [] = [WritePage (channel_id ch) 0 (MessagesPage [] ch 0 0)]"
  by (simp add: createHtmlForChannel_def chunk_Nil renderMessagesPage_empty)

lemma messages_list_nonempty:
  "c \<noteq> [] \<Longrightarrow> messages_list (MessagesPage c ch i t) =
     rev (map (\<lambda>m. ParentMessage m (channel_id ch)) c)"
  by (simp add: MessagesPage_def Let_def)

lemma jump_bar_1_of_3:
  "jump_bar (MessagesPage c ch 1 3) = Some [(0, []), (1, ''current''), (2, [])]"
  by (simp add: jump_bar_def MessagesPage_def Pagination_def Let_def upt_rec numeral_3_eq_3)

section \<open>Entity cache\<close>

text \<open>
  C10. A message with neither a \<open>user\<close> nor a \<open>bot_id\<close> field: \<open>downloadUser\<close> returns
  \<open>null\<close> at once, issues no remote lookup and leaves the users cache as it was.
\<close>

theorem downloadUser_no_identifier:
  assumes "user item = None" and "bot_id item = None"
  shows "downloadUser rem item us = (Inr None, us, [])"
  using assms by (simp add: downloadUser_def js_or_def truthy_def)

theorem downloadUser_no_identifier_witness:
  "user anonymous_message = None \<and> bot_id anonymous_message = None \<and>
   downloadUser remote_with_U1 anonymous_message Map.empty = (Inr None, Map.empty, [])"
proof -
  have u: "user anonymous_message = None" and b: "bot_id anonymous_message = None"
    by (simp_all add: anonymous_message_def)
  from u b downloadUser_no_identifier [OF u b, of remote_with_U1 Map.empty]
  show ?thesis by blast
qed

text \<open>
  C9. Repeated resolution of one identifier within a run. As stated (exactly one remote
  lookup for every identifier) the claim fails for an identifier the remote has no
  record of: \<open>downloadUser\<close> returns \<open>null\<close> without writing the cache, so the next
  resolution looks it up again, and two resolutions issue two lookups.
\<close>

theorem downloadUser_unresolved_looked_up_twice:
  "resolve_repeatedly no_remote message_of_U1 2 Map.empty =
     (Map.empty, [InfoCall UserType ''U1'', InfoCall UserType ''U1'']) \<and>
   length (snd (resolve_repeatedly no_remote message_of_U1 2 Map.empty)) \<noteq> 1"
  by (simp add: numeral_2_eq_2 downloadUser_def no_remote_def message_of_U1_def
      js_or_def truthy_def)

text \<open>
  C9, amended. For an item with an identifier: when the identifier is in the users cache,
  \<open>downloadUser\<close> returns the cached record, issues no remote call and leaves the cache
  as it is; when it is not cached and the remote lookup yields a record, the record is
  returned and stored under the identifier, and any number of resolutions in a row
  issue that one lookup only. A lookup that yields no record is not cached: it returns
  \<open>null\<close>, leaves the cache as it is, and each of \<open>n\<close> resolutions in a row issues one
  lookup of its own, \<open>n\<close> in all.
\<close>

theorem downloadUser_at_most_one_lookup:
  assumes "js_or (user item) (bot_id item) = Some ident" and "ident \<noteq> []"
  shows "(us ident = Some u \<longrightarrow> downloadUser rem item us = (Inr (Some u), us, [])) \<and>
         (us ident = None \<and>
          info rem (if truthy (user item) then UserType else BotType) ident = Inr (Some u) \<longrightarrow>
            downloadUser rem item us =
              (Inr (Some u), us(ident \<mapsto> u),
               [InfoCall (if truthy (user item) then UserType else BotType) ident]) \<and>
            resolve_repeatedly rem item (Suc n) us =
              (us(ident \<mapsto> u),
               [InfoCall (if truthy (user item) then UserType else BotType) ident])) \<and>
         (us ident = None \<and>
          info rem (if truthy (user item) then UserType else BotType) ident = Inr None \<longrightarrow>
            downloadUser rem item us =
              (Inr None, us,
               [InfoCall (if truthy (user item) then UserType else BotType) ident]) \<and>
            resolve_repeatedly rem item n us =
              (us, replicate n
                     (InfoCall (if truthy (user item) then UserType else BotType) ident)))"
proof (intro conjI impI)
  have t: "truthy (js_or (user item) (bot_id item))"
    using assms by (simp add: truthy_def)
  have i: "the (js_or (user item) (bot_id item)) = ident"
    using assms by simp
  show "downloadUser rem item us = (Inr (Some u), us, [])" if "us ident = Some u"
    using that t i by (simp add: downloadUser_cached)
  {
    assume h: "us ident = None \<and>
      info rem (if truthy (user item) then UserType else BotType) ident = Inr (Some u)"
    show first: "downloadUser rem item us =
        (Inr (Some u), us(ident \<mapsto> u),
         [InfoCall (if truthy (user item) then UserType else BotType) ident])"
      using h t i by (simp add: downloadUser_def Let_def)
    have "(us(ident \<mapsto> u)) (the (js_or (user item) (bot_id item))) = Some u"
      using i by simp
    then have "resolve_repeatedly rem item n (us(ident \<mapsto> u)) = (us(ident \<mapsto> u), [])"
      using t by (rule resolve_repeatedly_cached [rotated])
    then show "resolve_repeatedly rem item (Suc n) us =
        (us(ident \<mapsto> u),
         [InfoCall (if truthy (user item) then UserType else BotType) ident])"
      using first by simp
  }
  {
    assume h: "us ident = None \<and>
      info rem (if truthy (user item) then UserType else BotType) ident = Inr None"
    then have c: "us (the (js_or (user item) (bot_id item))) = None"
      and r: "info rem (if truthy (user item) then UserType else BotType)
                (the (js_or (user item) (bot_id item))) = Inr None"
      using i by simp_all
    show "downloadUser rem item us =
        (Inr None, us, [InfoCall (if truthy (user item) then UserType else BotType) ident])"
      using downloadUser_unresolved [of item us rem] t c r i by simp
    show "resolve_repeatedly rem item n us =
        (us, replicate n (InfoCall (if truthy (user item) then UserType else BotType) ident))"
      using resolve_repeatedly_unresolved [of item us rem n] t c r i by simp
  }
qed

theorem downloadUser_at_most_one_lookup_witness:
  "downloadUser no_remote message_of_U1 [''U1'' \<mapsto> user_U1] =
     (Inr (Some user_U1), [''U1'' \<mapsto> user_U1], []) \<and>
   resolve_repeatedly remote_with_U1 message_of_U1 3 Map.empty =
     ([''U1'' \<mapsto> user_U1], [InfoCall UserType ''U1'']) \<and>
   resolve_repeatedly no_remote message_of_U1 3 Map.empty =
     (Map.empty, replicate 3 (InfoCall UserType ''U1''))"
proof -
  have a: "js_or (user message_of_U1) (bot_id message_of_U1) = Some ''U1''"
    by (simp add: js_or_def truthy_def message_of_U1_def)
  have b: "''U1'' \<noteq> []" by simp
  have k: "(if truthy (user message_of_U1) then UserType else BotType) = UserType"
    by (simp add: truthy_def message_of_U1_def)
  have c: "[''U1'' \<mapsto> user_U1] ''U1'' = Some user_U1" by simp
  have d: "Map.empty ''U1'' = None \<and>
      info remote_with_U1 (if truthy (user message_of_U1) then UserType else BotType) ''U1''
        = Inr (Some user_U1)"
    by (simp add: k remote_with_U1_def)
  have e: "Map.empty ''U1'' = None \<and>
      info no_remote (if truthy (user message_of_U1) then UserType else BotType) ''U1''
        = Inr None"
    by (simp add: no_remote_def)
  have three: "(3::nat) = Suc 2" by simp
  from downloadUser_at_most_one_lookup
         [OF a b, of "[''U1'' \<mapsto> user_U1]" user_U1 no_remote] c
  have one: "downloadUser no_remote message_of_U1 [''U1'' \<mapsto> user_U1] =
     (Inr (Some user_U1), [''U1'' \<mapsto> user_U1], [])" by blast
  from downloadUser_at_most_one_lookup
         [OF a b, of Map.empty user_U1 remote_with_U1 2] d
  have two: "resolve_repeatedly remote_with_U1 message_of_U1 (Suc 2) Map.empty =
     ([''U1'' \<mapsto> user_U1], [InfoCall UserType ''U1''])"
    unfolding k by blast
  from downloadUser_at_most_one_lookup
         [OF a b, where us = Map.empty and rem = no_remote and n = 3 and u = user_U1] e
  have "resolve_repeatedly no_remote message_of_U1 3 Map.empty =
     (Map.empty, replicate 3 (InfoCall UserType ''U1''))"
    unfolding k by blast
  with one two show ?thesis unfolding three by blast
qed

section \<open>Message synchronizer\<close>

text \<open>
  C1. No two messages of the merged collection share a timestamp. As stated the claim
  fails: \<open>downloadMessages\<close> has no step that compares timestamps. With one message
  persisted and a remote that delivers the same message again (its timestamp lies
  above the cursor, which is the integer part of that timestamp), the merged collection
  holds the message twice.
\<close>

theorem downloadMessages_keeps_redelivered_message:
  "fst (downloadMessages (remote_holding [msg_a]) store_a chan_C1) =
     Inr \<lparr> messages = [msg_a, msg_a], new = 1 \<rparr> \<and>
   \<not> distinct (map ts (messages \<lparr> messages = [msg_a, msg_a], new = 1 \<rparr>))"
  by (simp add: run_on_store_a)

text \<open>
  C1, amended. On a channel with an id, a run that the transport completes returns the
  delivered messages followed by the persisted collection, untouched and in its order,
  and counts the delivered messages as new. No message is dropped, so the merged
  collection is free of duplicate timestamps exactly when the delivered messages are,
  the persisted ones are, and no delivered timestamp is a persisted one.
\<close>

theorem downloadMessages_no_dedup:
  assumes "truthy (channel_id ch)"
    and "fst (downloadMessages rem getMessages ch) = Inr r"
  shows "messages r =
           delivered (history rem (the (channel_id ch))
                        (fetch_cursor (getMessages (the (channel_id ch)))))
           @ getMessages (the (channel_id ch)) \<and>
         new r =
           length (delivered (history rem (the (channel_id ch))
                        (fetch_cursor (getMessages (the (channel_id ch)))))) \<and>
         (distinct (map ts (messages r)) \<longleftrightarrow>
            distinct (map ts (delivered (history rem (the (channel_id ch))
                        (fetch_cursor (getMessages (the (channel_id ch)))))))
            \<and> distinct (map ts (getMessages (the (channel_id ch))))
            \<and> set (map ts (delivered (history rem (the (channel_id ch))
                        (fetch_cursor (getMessages (the (channel_id ch)))))))
                \<inter> set (map ts (getMessages (the (channel_id ch)))) = {})"
  using downloadMessages_result [OF assms] by simp

theorem downloadMessages_no_dedup_witness:
  "messages \<lparr> messages = [msg_a], new = 1 \<rparr> =
     delivered (history (remote_holding [msg_a]) (the (channel_id chan_C1))
                  (fetch_cursor (empty_store (the (channel_id chan_C1)))))
     @ empty_store (the (channel_id chan_C1)) \<and>
   distinct (map ts (messages \<lparr> messages = [msg_a], new = 1 \<rparr>))"
proof -
  have a: "truthy (channel_id chan_C1)" by (simp add: chan_C1_def truthy_def)
  from downloadMessages_no_dedup [OF a run_on_empty_store]
  show ?thesis by simp
qed

text \<open>
  C2. The cursor of the history fetch. As stated the claim fails: with the collection
  \<open>[200.000000, 100.000000]\<close> persisted, newest first, the oldest stored message has the
  timestamp \<open>100.000000\<close>, and the cursor passed to the remote is \<open>200\<close>.
\<close>

theorem downloadMessages_cursor_counterexample:
  "snd (downloadMessages no_remote store_200_100 chan_C1)
     \<noteq> [HistoryCall ''C1'' (spec_cursor (store_200_100 ''C1''))]"
  by (simp add: downloadMessages_def Let_def chan_C1_def truthy_def store_200_100_def
      fetch_cursor_def spec_cursor_def oldest_stored_def or_default_def
      msg_200_def msg_100_def parseInt_200 parseInt_100 ts_micros_200 ts_micros_100)

text \<open>
  C2, amended. On a channel with an id \<open>downloadMessages\<close> issues one history fetch, and
  its cursor is taken from the first stored message, which is the newest one of a
  collection stored newest first: the cursor is \<open>parseInt\<close> of its timestamp, that is
  the whole seconds in front of the decimal point, and \<open>0\<close> when that message has no
  timestamp. For an empty collection the cursor is \<open>0\<close>.
\<close>

theorem downloadMessages_cursor:
  assumes "channel_id ch = Some cid" and "cid \<noteq> []"
  shows "snd (downloadMessages rem getMessages ch) =
           [HistoryCall cid (fetch_cursor (getMessages cid))] \<and>
         (getMessages cid = [] \<longrightarrow> fetch_cursor (getMessages cid) = Some 0) \<and>
         (getMessages cid = m # rest \<and> \<not> truthy (ts m) \<longrightarrow>
            fetch_cursor (getMessages cid) = Some 0) \<and>
         (getMessages cid = m # rest \<and> ts m = Some (secs @ CHR ''.'' # frac) \<and>
          secs \<noteq> [] \<and> list_all is_digit secs \<longrightarrow>
            fetch_cursor (getMessages cid) = Some (int (digits_val secs)))"
proof (intro conjI impI)
  show "snd (downloadMessages rem getMessages ch) =
           [HistoryCall cid (fetch_cursor (getMessages cid))]"
    using assms by (simp add: downloadMessages_def truthy_def Let_def)
  show "fetch_cursor (getMessages cid) = Some 0" if "getMessages cid = []"
    using that by (simp add: fetch_cursor_def)
  show "fetch_cursor (getMessages cid) = Some 0"
    if "getMessages cid = m # rest \<and> \<not> truthy (ts m)"
    using that
    by (simp add: fetch_cursor_def or_default_def parseInt_def is_digit_def digits_val_def
        digit_val_def StrWhiteSpaceChar_def)
  assume h: "getMessages cid = m # rest \<and> ts m = Some (secs @ CHR ''.'' # frac) \<and>
          secs \<noteq> [] \<and> list_all is_digit secs"
  then have "truthy (ts m)" by (simp add: truthy_def)
  with h show "fetch_cursor (getMessages cid) = Some (int (digits_val secs))"
    by (simp add: fetch_cursor_def or_default_def parseInt_seconds)
qed

theorem downloadMessages_cursor_witness:
  "snd (downloadMessages no_remote store_200_100 chan_C1) =
     [HistoryCall ''C1'' (fetch_cursor (store_200_100 ''C1''))] \<and>
   fetch_cursor (store_200_100 ''C1'') = Some (int (digits_val ''200''))"
proof -
  have a: "channel_id chan_C1 = Some ''C1''" and b: "''C1'' \<noteq> []"
    by (simp_all add: chan_C1_def)
  have c: "store_200_100 ''C1'' = msg_200 # [msg_100] \<and>
           ts msg_200 = Some (''200'' @ CHR ''.'' # ''000000'') \<and>
           ''200'' \<noteq> [] \<and> list_all is_digit ''200''"
    by (simp add: store_200_100_def msg_200_def is_digit_def)
  from downloadMessages_cursor
         [OF a b, of no_remote store_200_100 msg_200 "[msg_100]" "''200''" "''000000''"] c
  show ?thesis by blast
qed

text \<open>
  C3. Two runs in a row against an unchanged remote. As stated the claim fails: from an
  empty store, with a remote that holds one message of timestamp \<open>1700000000.000100\<close>,
  the first run stores the message; the second run asks from the cursor \<open>1700000000\<close>,
  is delivered the message again, counts it as new and puts it in front.
\<close>

theorem second_run_counts_redelivered_message:
  "\<not> second_run_idempotent
       (downloadMessages_twice (remote_holding [msg_a]) empty_store chan_C1)"
  by (simp add: twice_on_empty_store second_run_idempotent_def)

text \<open>
  C3, amended. On a channel with an id, when both runs complete: the second run asks
  the remote from the cursor of the first run's collection, returns what it is
  delivered followed by the first run's collection, and counts what it is delivered as
  new. So the second run has a new-count of \<open>0\<close> and leaves the collection identical
  exactly when the remote delivers no message for that cursor.
\<close>

theorem second_run_merges_what_is_delivered:
  assumes "truthy (channel_id ch)"
    and "downloadMessages_twice rem getMessages ch = (Inr r1, Inr r2)"
  shows "snd (downloadMessages rem (\<lambda>cid. messages r1) ch) =
           [HistoryCall (the (channel_id ch)) (fetch_cursor (messages r1))] \<and>
         messages r2 =
           delivered (history rem (the (channel_id ch)) (fetch_cursor (messages r1)))
           @ messages r1 \<and>
         new r2 =
           length (delivered (history rem (the (channel_id ch)) (fetch_cursor (messages r1)))) \<and>
         (second_run_idempotent (Inr r1, Inr r2) \<longleftrightarrow>
            delivered (history rem (the (channel_id ch)) (fetch_cursor (messages r1))) = [])"
proof -
  from assms(2) have r2: "fst (downloadMessages rem (\<lambda>cid. messages r1) ch) = Inr r2"
    by (auto simp: downloadMessages_twice_def split: sum.splits)
  have c: "snd (downloadMessages rem (\<lambda>cid. messages r1) ch) =
           [HistoryCall (the (channel_id ch)) (fetch_cursor (messages r1))]"
    using assms(1) by (simp add: downloadMessages_def Let_def)
  from downloadMessages_result [OF assms(1) r2] c show ?thesis
    by (auto simp: second_run_idempotent_def)
qed

theorem second_run_merges_what_is_delivered_witness:
  "messages \<lparr> messages = [msg_a, msg_a], new = 1 \<rparr> =
     delivered (history (remote_holding [msg_a]) (the (channel_id chan_C1))
                  (fetch_cursor (messages \<lparr> messages = [msg_a], new = 1 \<rparr>)))
     @ messages \<lparr> messages = [msg_a], new = 1 \<rparr> \<and>
   new \<lparr> messages = [msg_a, msg_a], new = 1 \<rparr> =
     length (delivered (history (remote_holding [msg_a]) (the (channel_id chan_C1))
                  (fetch_cursor (messages \<lparr> messages = [msg_a], new = 1 \<rparr>))))"
proof -
  have a: "truthy (channel_id chan_C1)" by (simp add: chan_C1_def truthy_def)
  from second_run_merges_what_is_delivered [OF a twice_on_empty_store]
  show ?thesis by blast
qed

section \<open>Thread synchronizer\<close>

text \<open>
  C4. A thread parent (a message with a positive \<open>reply_count\<close>) whose stored reply
  sequence has at least \<open>reply_count\<close> entries: \<open>downloadReplies\<close> issues no remote
  fetch, and for a message with a timestamp in a channel with an id (the only ones the
  synchronizer is run on) it returns the stored reply sequence unchanged.
\<close>

theorem downloadReplies_complete_thread:
  assumes "reply_count message = Some n" and "0 < n"
    and "replies message = Some rs" and "n \<le> length rs"
  shows "snd (downloadReplies rem ch message) = [] \<and>
         (truthy (channel_id ch) \<and> truthy (ts message) \<longrightarrow>
            downloadReplies rem ch message = (Inr rs, []))"
  using assms by (simp add: downloadReplies_def truthy_num_def)

theorem downloadReplies_complete_thread_witness:
  "isThread complete_thread \<and>
   snd (downloadReplies remote_thread chan_without_id complete_thread) = [] \<and>
   downloadReplies remote_thread chan_C1 complete_thread = (Inr [reply_1], [])"
proof -
  have a: "reply_count complete_thread = Some 1" and b: "0 < (1::nat)"
    and c: "replies complete_thread = Some [reply_1]" and d: "(1::nat) \<le> length [reply_1]"
    by (simp_all add: complete_thread_def)
  have e: "truthy (channel_id chan_C1) \<and> truthy (ts complete_thread)"
    by (simp add: chan_C1_def complete_thread_def truthy_def)
  have t: "isThread complete_thread"
    by (simp add: isThread_def truthy_num_def complete_thread_def)
  from downloadReplies_complete_thread [OF a b c d, of remote_thread chan_C1] e
  have one: "downloadReplies remote_thread chan_C1 complete_thread = (Inr [reply_1], [])"
    by blast
  from downloadReplies_complete_thread [OF a b c d, of remote_thread chan_without_id]
  have "snd (downloadReplies remote_thread chan_without_id complete_thread) = []"
    by blast
  with one t show ?thesis by blast
qed

text \<open>
  C5. The code at a thread parent that says two replies and holds the first:
  \<open>downloadReplies\<close> asks the remote from the timestamp of the stored reply, drops the
  parent from the answer and returns the new reply alone; \<open>downloadExtras\<close> assigns
  that to \<open>message.replies\<close>, so the stored reply is gone from the final sequence.
\<close>

theorem downloadExtras_overwrites_stored_replies:
  "fst (downloadExtras remote_thread chan_C1 [partial_thread] Map.empty) =
     Inr ([partial_thread \<lparr> replies := Some [reply_2] \<rparr>], Map.empty) \<and>
   reply_1 \<notin> set (the (replies (partial_thread \<lparr> replies := Some [reply_2] \<rparr>))) \<and>
   snd (downloadExtras remote_thread chan_C1 [partial_thread] Map.empty) =
     [RepliesCall ''C1'' ''100.000000'' (Some ''101.000000''), InfoCall UserType ''U1'']"
  by (simp add: downloadExtras_body_def downloadReplies_def downloadUser_def isThread_def
      remote_thread_def chan_C1_def partial_thread_def truthy_def truthy_num_def js_or_def
      reply_1_def reply_2_def Let_def)

section \<open>Pagination renderer and search index\<close>

text \<open>
  C6. Rendering cuts the collection, from its front, into slices of at most 1000
  messages that put together give the collection back, and writes one page per slice,
  in order. For 2500 messages, three pages are written, of sizes 1000, 1000 and 500 and
  indices 0, 1 and 2; page 0 shows the first 1000 messages of the collection (the newest
  of a collection stored newest first), page 2 the last 500, each page in reverse; the
  jump bar of page 1 lists the indices 0, 1 and 2 and marks 1 as current.
\<close>

theorem createHtmlForChannel_pages:
  "concat (chunk msgs MESSAGE_CHUNK) = msgs \<and>
   (c \<in> set (chunk msgs MESSAGE_CHUNK) \<longrightarrow> c \<noteq> [] \<and> length c \<le> 1000) \<and>
   (msgs \<noteq> [] \<longrightarrow>
      written_pages (createHtmlForChannel ch msgs) =
        map (\<lambda>(i, c). MessagesPage c ch i (length (chunk msgs MESSAGE_CHUNK)))
            (enumerate 0 (chunk msgs MESSAGE_CHUNK))) \<and>
   (length msgs = 2500 \<longrightarrow>
      written_pages (createHtmlForChannel ch msgs) =
        [MessagesPage (take 1000 msgs) ch 0 3,
         MessagesPage (take 1000 (drop 1000 msgs)) ch 1 3,
         MessagesPage (drop 2000 msgs) ch 2 3] \<and>
      map page_index (written_pages (createHtmlForChannel ch msgs)) = [0, 1, 2] \<and>
      map (\<lambda>p. length (messages_list p)) (written_pages (createHtmlForChannel ch msgs)) =
        [1000, 1000, 500] \<and>
      messages_list (written_pages (createHtmlForChannel ch msgs) ! 0) =
        rev (map (\<lambda>m. ParentMessage m (channel_id ch)) (take 1000 msgs)) \<and>
      messages_list (written_pages (createHtmlForChannel ch msgs) ! 2) =
        rev (map (\<lambda>m. ParentMessage m (channel_id ch)) (drop 2000 msgs)) \<and>
      jump_bar (written_pages (createHtmlForChannel ch msgs) ! 1) =
        Some [(0, []), (1, ''current''), (2, [])])"
proof (intro conjI impI)
  have pos: "0 < MESSAGE_CHUNK" by (simp add: MESSAGE_CHUNK_def)
  show "concat (chunk msgs MESSAGE_CHUNK) = msgs" by (rule concat_chunk [OF pos])
  show "c \<noteq> []" if "c \<in> set (chunk msgs MESSAGE_CHUNK)"
    using chunk_member [OF pos that] by simp
  show "length c \<le> 1000" if "c \<in> set (chunk msgs MESSAGE_CHUNK)"
    using chunk_member [OF pos that] by (simp add: MESSAGE_CHUNK_def)
  show "written_pages (createHtmlForChannel ch msgs) =
        map (\<lambda>(i, c). MessagesPage c ch i (length (chunk msgs MESSAGE_CHUNK)))
            (enumerate 0 (chunk msgs MESSAGE_CHUNK))" if "msgs \<noteq> []"
    by (simp add: createHtmlForChannel_nonempty [OF that] written_render_chunks)
next
  assume len: "length msgs = 2500"
  then have ne: "msgs \<noteq> []" by auto
  have ch3: "chunk msgs MESSAGE_CHUNK =
      [take 1000 msgs, take 1000 (drop 1000 msgs), drop 2000 msgs]"
    unfolding MESSAGE_CHUNK_def by (rule chunk_2500 [OF len])
  have n1: "take 1000 msgs \<noteq> []" and n2: "take 1000 (drop 1000 msgs) \<noteq> []"
    and n3: "drop 2000 msgs \<noteq> []"
    using len by auto
  show pages: "written_pages (createHtmlForChannel ch msgs) =
        [MessagesPage (take 1000 msgs) ch 0 3,
         MessagesPage (take 1000 (drop 1000 msgs)) ch 1 3,
         MessagesPage (drop 2000 msgs) ch 2 3]"
    by (simp add: createHtmlForChannel_nonempty [OF ne] written_render_chunks ch3
        numeral_2_eq_2 numeral_3_eq_3)
  show "map page_index (written_pages (createHtmlForChannel ch msgs)) = [0, 1, 2]"
    unfolding pages by (simp add: MessagesPage_def Let_def)
  show "map (\<lambda>p. length (messages_list p)) (written_pages (createHtmlForChannel ch msgs)) =
        [1000, 1000, 500]"
    unfolding pages using len
    by (simp add: messages_list_nonempty [OF n1] messages_list_nonempty [OF n2]
        messages_list_nonempty [OF n3])
  show "messages_list (written_pages (createHtmlForChannel ch msgs) ! 0) =
        rev (map (\<lambda>m. ParentMessage m (channel_id ch)) (take 1000 msgs))"
    unfolding pages by (simp add: messages_list_nonempty [OF n1])
  show "messages_list (written_pages (createHtmlForChannel ch msgs) ! 2) =
        rev (map (\<lambda>m. ParentMessage m (channel_id ch)) (drop 2000 msgs))"
    unfolding pages by (simp add: messages_list_nonempty [OF n3])
  show "jump_bar (written_pages (createHtmlForChannel ch msgs) ! 1) =
        Some [(0, []), (1, ''current''), (2, [])]"
    unfolding pages using jump_bar_1_of_3 [of "take 1000 (drop 1000 msgs)" ch] by simp
qed

theorem createHtmlForChannel_pages_witness:
  "length (replicate 2500 msg_a) = 2500 \<and>
   length (drop 2000 (replicate 2500 msg_a)) \<le> 1000 \<and>
   map (\<lambda>p. length (messages_list p))
       (written_pages (createHtmlForChannel chan_C1 (replicate 2500 msg_a))) =
     [1000, 1000, 500] \<and>
   jump_bar (written_pages (createHtmlForChannel chan_C1 (replicate 2500 msg_a)) ! 1) =
     Some [(0, []), (1, ''current''), (2, [])]"
proof -
  have l: "length (replicate 2500 msg_a) = 2500" by simp
  have ne: "replicate 2500 msg_a \<noteq> []" by simp
  have mem: "drop 2000 (replicate 2500 msg_a) \<in> set (chunk (replicate 2500 msg_a) MESSAGE_CHUNK)"
    unfolding MESSAGE_CHUNK_def chunk_2500 [OF l] by simp
  from createHtmlForChannel_pages
         [of "replicate 2500 msg_a" "drop 2000 (replicate 2500 msg_a)" chan_C1] l ne mem
  show ?thesis by blast
qed

text \<open>
  C7. A channel with no message: exactly one page is written, and what it shows is the
  placeholder "No messages were ever sent!".
\<close>

theorem createHtmlForChannel_empty:
  "length (written_pages (createHtmlForChannel ch [])) = 1 \<and>
   map messages_list (written_pages (createHtmlForChannel ch [])) =
     [[Span ''empty'' ''No messages were ever sent!'']]"
  by (simp add: createHtmlForChannel_Nil MessagesPage_def)

text \<open>
  C8. One call of \<open>recordPage\<close> for every rendered page. As stated the claim fails on the
  guard \<open>messages.length > 0\<close> of \<open>renderMessagesPage\<close>: the one page of an empty channel
  is written and nothing is recorded for it.
\<close>

theorem createHtmlForChannel_empty_records_nothing:
  "length (recorded_boundaries (createHtmlForChannel chan_C1 []))
     \<noteq> length (written_pages (createHtmlForChannel chan_C1 []))"
  by (simp add: createHtmlForChannel_Nil)

text \<open>
  C8, amended. \<open>recordPage\<close> is called once for every slice of the collection, hence once
  for every rendered page that holds a message, in page order and right before the
  page is written, with the channel id and the timestamp of the last message of the
  slice; that message is the first one the page shows after the reversal. For a
  collection in which every message is newer than all that follow it, every recorded
  boundary is newer than all that follow it. The page of an empty channel records
  nothing.
\<close>

theorem recordPage_per_page_with_messages:
  "recorded_boundaries (createHtmlForChannel ch msgs) =
     map (\<lambda>c. (channel_id ch, ts (last c))) (chunk msgs MESSAGE_CHUNK) \<and>
   (msgs \<noteq> [] \<longrightarrow>
      createHtmlForChannel ch msgs =
        concat (map (\<lambda>(i, c). [RecordPage (channel_id ch) (ts (last c)),
                                 WritePage (channel_id ch) i
                                   (MessagesPage c ch i (length (chunk msgs MESSAGE_CHUNK)))])
                    (enumerate 0 (chunk msgs MESSAGE_CHUNK)))) \<and>
   (c \<noteq> [] \<longrightarrow>
      hd (messages_list (MessagesPage c ch i t)) = ParentMessage (last c) (channel_id ch)) \<and>
   (sorted_wrt (\<lambda>a b. R (ts a) (ts b)) msgs \<longrightarrow>
      sorted_wrt R (map snd (recorded_boundaries (createHtmlForChannel ch msgs))))"
proof -
  have pos: "0 < MESSAGE_CHUNK" by (simp add: MESSAGE_CHUNK_def)
  have rec: "recorded_boundaries (createHtmlForChannel ch msgs) =
     map (\<lambda>c. (channel_id ch, ts (last c))) (chunk msgs MESSAGE_CHUNK)"
  proof (cases "msgs = []")
    case True
    then show ?thesis by (simp add: createHtmlForChannel_Nil chunk_Nil)
  next
    case False
    then show ?thesis
      by (simp add: createHtmlForChannel_nonempty recorded_render_chunks)
  qed
  have shown: "hd (messages_list (MessagesPage c ch i t)) = ParentMessage (last c) (channel_id ch)"
    if "c \<noteq> []"
    using that by (simp add: messages_list_nonempty hd_rev last_map)
  have sorted: "sorted_wrt R (map snd (recorded_boundaries (createHtmlForChannel ch msgs)))"
    if "sorted_wrt (\<lambda>a b. R (ts a) (ts b)) msgs"
  proof -
    from sorted_wrt_chunk_last [OF pos that]
    have "sorted_wrt (\<lambda>a b. R (ts a) (ts b)) (map last (chunk msgs MESSAGE_CHUNK))" .
    then have "sorted_wrt R (map ts (map last (chunk msgs MESSAGE_CHUNK)))"
      by (simp add: sorted_wrt_map)
    then show ?thesis by (simp add: rec comp_def)
  qed
  from rec shown sorted createHtmlForChannel_nonempty [of msgs ch] show ?thesis by blast
qed

theorem recordPage_per_page_with_messages_witness:
  "sorted_wrt (\<lambda>a b. newer_first (ts a) (ts b)) [msg_200, msg_100] \<and>
   recorded_boundaries (createHtmlForChannel chan_C1 [msg_200, msg_100]) =
     [(Some ''C1'', Some ''100.000000'')] \<and>
   sorted_wrt newer_first
     (map snd (recorded_boundaries (createHtmlForChannel chan_C1 [msg_200, msg_100])))"
proof -
  have s: "sorted_wrt (\<lambda>a b. newer_first (ts a) (ts b)) [msg_200, msg_100]"
    by (simp add: newer_first_def msg_200_def msg_100_def or_default_def truthy_def
        ts_micros_200 ts_micros_100)
  have ne: "[msg_200, msg_100] \<noteq> []" by simp
  have c: "chunk [msg_200, msg_100] MESSAGE_CHUNK = [[msg_200, msg_100]]"
    by (simp add: chunk_step chunk_Nil MESSAGE_CHUNK_def)
  from recordPage_per_page_with_messages
         [of chan_C1 "[msg_200, msg_100]" "[msg_200, msg_100]" 0 1 newer_first] s ne
  have "recorded_boundaries (createHtmlForChannel chan_C1 [msg_200, msg_100]) =
          map (\<lambda>c. (channel_id chan_C1, ts (last c))) (chunk [msg_200, msg_100] MESSAGE_CHUNK)"
    and "sorted_wrt newer_first
          (map snd (recorded_boundaries (createHtmlForChannel chan_C1 [msg_200, msg_100])))"
    by blast+
  then have "recorded_boundaries (createHtmlForChannel chan_C1 [msg_200, msg_100]) =
          [(Some ''C1'', Some ''100.000000'')]"
    and "sorted_wrt newer_first
          (map snd (recorded_boundaries (createHtmlForChannel chan_C1 [msg_200, msg_100])))"
    unfolding c by (simp_all add: chan_C1_def msg_100_def)
  with s show ?thesis by blast
qed

end
